theory Spec2Isabelle
  imports Complex_Main
begin

section \<open>JavaScript values\<close>

text \<open>
  The values the client handles. An object is the list of its properties in insertion
  order; a function is known by an identity only (the client never looks inside one, it
  only asks whether an argument is a function and later calls it). Numbers are the finite
  ones plus NaN; of a number the client only observes whether it is truthy.
\<close>

datatype jsval =
    JUndefined
  | JNull
  | JBool bool
  | JNum rat
  | JNaN
  | JStr string
  | JObj "(string \<times> jsval) list"
  | JFun nat

datatype js_error = TypeError

text \<open>ToBoolean: the falsy values are undefined, null, false, 0, NaN and the empty string.\<close>

fun truthy :: "jsval \<Rightarrow> bool" where
  "truthy JUndefined = False"
| "truthy JNull = False"
| "truthy (JBool b) = b"
| "truthy (JNum r) = (r \<noteq> 0)"
| "truthy JNaN = False"
| "truthy (JStr s) = (s \<noteq> [])"
| "truthy (JObj kvs) = True"
| "truthy (JFun f) = True"

text \<open>\<^verbatim>\<open>a || b\<close>\<close>

definition js_or :: "jsval \<Rightarrow> jsval \<Rightarrow> jsval" where
  "js_or a b = (if truthy a then a else b)"

text \<open>
  \<^verbatim>\<open>o.k\<close> for the property names the client reads (user, username, password, merchant,
  terminal): reading a property of undefined or null throws a TypeError; an object gives
  the property or undefined; a primitive or a function has no property of these names.
\<close>

definition get_prop :: "jsval \<Rightarrow> string \<Rightarrow> js_error + jsval" where
  "get_prop v k =
     (case v of
        JUndefined \<Rightarrow> Inl TypeError
      | JNull \<Rightarrow> Inl TypeError
      | JObj kvs \<Rightarrow> Inr (case map_of kvs k of Some x \<Rightarrow> x | None \<Rightarrow> JUndefined)
      | _ \<Rightarrow> Inr JUndefined)"

text \<open>\<^verbatim>\<open>o.k = v\<close> on an object: an existing property keeps its place, a new one is added last.\<close>

fun set_prop :: "(string \<times> jsval) list \<Rightarrow> string \<Rightarrow> jsval \<Rightarrow> (string \<times> jsval) list" where
  "set_prop [] k v = [(k, v)]"
| "set_prop ((k', v') # kvs) k v =
     (if k' = k then (k, v) # kvs else (k', v') # set_prop kvs k v)"

section \<open>The client: constructor\<close>

record client =
  user :: jsval
  password :: jsval
  merchant_id :: jsval
  terminal_id :: jsval
  default_cred :: "(string \<times> jsval) list"

text \<open>
  \<^verbatim>\<open>this.x && (this.default.k = this.x)\<close>: the assignment happens only for a truthy value.
\<close>

definition and_set :: "jsval \<Rightarrow> string \<Rightarrow> (string \<times> jsval) list \<Rightarrow> (string \<times> jsval) list" where
  "and_set x k d = (if truthy x then set_prop d k x else d)"

definition constructor :: "jsval \<Rightarrow> js_error + client" where
  "constructor options0 =
     (let options = js_or options0 (JObj []) in
      case get_prop options ''user'' of Inl e \<Rightarrow> Inl e | Inr u \<Rightarrow>
      case get_prop options ''password'' of Inl e \<Rightarrow> Inl e | Inr p \<Rightarrow>
      case get_prop options ''merchant'' of Inl e \<Rightarrow> Inl e | Inr m \<Rightarrow>
      case get_prop options ''terminal'' of Inl e \<Rightarrow> Inl e | Inr t \<Rightarrow>
      Inr \<lparr> user = u, password = p, merchant_id = m, terminal_id = t,
            default_cred =
              and_set t ''terminal_id''
                (and_set m ''merchant_id''
                  (and_set p ''password''
                    (and_set u ''user'' []))) \<rparr>)"

section \<open>The client: schemas and transaction methods\<close>

datatype kind = KNumber | KString

record joi_schema =
  kind :: kind
  required :: bool
  max_len :: "nat option"

definition joi_number :: joi_schema where
  "joi_number = \<lparr> kind = KNumber, required = False, max_len = None \<rparr>"

definition joi_string :: joi_schema where
  "joi_string = \<lparr> kind = KString, required = False, max_len = None \<rparr>"

definition joi_max :: "nat \<Rightarrow> joi_schema \<Rightarrow> joi_schema" where
  "joi_max n s = s\<lparr> max_len := Some n \<rparr>"

definition joi_required :: "joi_schema \<Rightarrow> joi_schema" where
  "joi_required s = s\<lparr> required := True \<rparr>"

type_synonym schema = "(string \<times> joi_schema) list"

text \<open>
  Every method builds its schema and hands over to the static \<^verbatim>\<open>Payworks.request\<close>, called
  with the client as \<^verbatim>\<open>this\<close>. The helper is a property looked up at the call, so it is the
  first argument here; params, options and callback are passed on untouched.
\<close>

type_synonym ('p, 'o, 'c, 'r) helper = "client \<Rightarrow> string \<Rightarrow> schema \<Rightarrow> 'p \<Rightarrow> 'o \<Rightarrow> 'c \<Rightarrow> 'r"

definition auth :: "('p, 'o, 'c, 'r) helper \<Rightarrow> client \<Rightarrow> 'p \<Rightarrow> 'o \<Rightarrow> 'c \<Rightarrow> 'r" where
  "auth request this params options callback =
     (let schema =
        [(''amount'', joi_required joi_number),
         (''reference'', joi_string),
         (''entry_mode'', joi_required (joi_max 20 joi_string)),
         (''card_number'', joi_required (joi_max 20 joi_string)),
         (''card_exp'', joi_required (joi_max 4 joi_string)),
         (''security_code'', joi_required (joi_max 4 joi_string))]
      in request this ''AUTH'' schema params options callback)"

definition forceAuth :: "('p, 'o, 'c, 'r) helper \<Rightarrow> client \<Rightarrow> 'p \<Rightarrow> 'o \<Rightarrow> 'c \<Rightarrow> 'r" where
  "forceAuth request this params options callback =
     (let schema =
        [(''amount'', joi_required joi_number),
         (''reference'', joi_string),
         (''entry_mode'', joi_required (joi_max 20 joi_string)),
         (''card_number'', joi_required (joi_max 20 joi_string)),
         (''card_exp'', joi_required (joi_max 4 joi_string)),
         (''security_code'', joi_required (joi_max 4 joi_string))]
      in request this ''FORCED_AUTH'' schema params options callback)"

definition preAuth :: "('p, 'o, 'c, 'r) helper \<Rightarrow> client \<Rightarrow> 'p \<Rightarrow> 'o \<Rightarrow> 'c \<Rightarrow> 'r" where
  "preAuth request this params options callback =
     (let schema =
        [(''amount'', joi_required joi_number),
         (''reference'', joi_string),
         (''entry_mode'', joi_required (joi_max 20 joi_string)),
         (''card_number'', joi_required (joi_max 20 joi_string)),
         (''card_exp'', joi_required (joi_max 4 joi_string)),
         (''security_code'', joi_required (joi_max 4 joi_string))]
      in request this ''PREAUTH'' schema params options callback)"

definition postAuth :: "('p, 'o, 'c, 'r) helper \<Rightarrow> client \<Rightarrow> 'p \<Rightarrow> 'o \<Rightarrow> 'c \<Rightarrow> 'r" where
  "postAuth request this params options callback =
     (let schema =
        [(''amount'', joi_required joi_number),
         (''reference'', joi_required joi_string)]
      in request this ''POSTAUTH'' schema params options callback)"

definition reAuth :: "('p, 'o, 'c, 'r) helper \<Rightarrow> client \<Rightarrow> 'p \<Rightarrow> 'o \<Rightarrow> 'c \<Rightarrow> 'r" where
  "reAuth request this params options callback =
     (let schema =
        [(''amount'', joi_required joi_number),
         (''reference'', joi_required joi_string)]
      in request this ''REAUTH'' schema params options callback)"

definition refund :: "('p, 'o, 'c, 'r) helper \<Rightarrow> client \<Rightarrow> 'p \<Rightarrow> 'o \<Rightarrow> 'c \<Rightarrow> 'r" where
  "refund request this params options callback =
     (let schema =
        [(''amount'', joi_required joi_number),
         (''reference'', joi_required joi_string)]
      in request this ''REFUND'' schema params options callback)"

definition cancel :: "('p, 'o, 'c, 'r) helper \<Rightarrow> client \<Rightarrow> 'p \<Rightarrow> 'o \<Rightarrow> 'c \<Rightarrow> 'r" where
  "cancel request this params options callback =
     (let schema = [(''reference'', joi_required joi_string)]
      in request this ''VOID'' schema params options callback)"

definition reverse :: "('p, 'o, 'c, 'r) helper \<Rightarrow> client \<Rightarrow> 'p \<Rightarrow> 'o \<Rightarrow> 'c \<Rightarrow> 'r" where
  "reverse request this params options callback =
     (let schema =
        [(''reference'', joi_required joi_string),
         (''control_number'', joi_max 30 joi_string)]
      in request this ''REVERSAL'' schema params options callback)"

definition close :: "('p, 'o, 'c, 'r) helper \<Rightarrow> client \<Rightarrow> 'p \<Rightarrow> 'o \<Rightarrow> 'c \<Rightarrow> 'r" where
  "close request this params options callback =
     (let schema = []
      in request this ''MCHNT_SETTLEMENT'' schema params options callback)"

definition closeGroup :: "('p, 'o, 'c, 'r) helper \<Rightarrow> client \<Rightarrow> 'p \<Rightarrow> 'o \<Rightarrow> 'c \<Rightarrow> 'r" where
  "closeGroup request this params options callback =
     (let schema = [(''group'', joi_required joi_string)]
      in request this ''GROUP_SETTLEMENT'' schema params options callback)"

definition verify :: "('p, 'o, 'c, 'r) helper \<Rightarrow> client \<Rightarrow> 'p \<Rightarrow> 'o \<Rightarrow> 'c \<Rightarrow> 'r" where
  "verify request this params options callback =
     (let schema =
        [(''reference'', joi_string),
         (''control_number'', joi_string)]
      in request this ''VERIFY'' schema params options callback)"

definition suspend :: "('p, 'o, 'c, 'r) helper \<Rightarrow> client \<Rightarrow> 'p \<Rightarrow> 'o \<Rightarrow> 'c \<Rightarrow> 'r" where
  "suspend request this params options callback =
     (let schema = [(''reference'', joi_required joi_string)]
      in request this ''LOCK'' schema params options callback)"

definition reactivate :: "('p, 'o, 'c, 'r) helper \<Rightarrow> client \<Rightarrow> 'p \<Rightarrow> 'o \<Rightarrow> 'c \<Rightarrow> 'r" where
  "reactivate request this params options callback =
     (let schema = [(''reference'', joi_required joi_string)]
      in request this ''UNLOCK'' schema params options callback)"

text \<open>The thirteen methods by name, and a call of the one named.\<close>

datatype txn_method =
    Auth | ForceAuth | PreAuth | PostAuth | ReAuth | Refund | Cancel
  | Reverse | Close | CloseGroup | Verify | Suspend | Reactivate

fun call_method ::
  "txn_method \<Rightarrow> ('p, 'o, 'c, 'r) helper \<Rightarrow> client \<Rightarrow> 'p \<Rightarrow> 'o \<Rightarrow> 'c \<Rightarrow> 'r" where
  "call_method Auth = auth"
| "call_method ForceAuth = forceAuth"
| "call_method PreAuth = preAuth"
| "call_method PostAuth = postAuth"
| "call_method ReAuth = reAuth"
| "call_method Refund = refund"
| "call_method Cancel = cancel"
| "call_method Reverse = reverse"
| "call_method Close = close"
| "call_method CloseGroup = closeGroup"
| "call_method Verify = verify"
| "call_method Suspend = suspend"
| "call_method Reactivate = reactivate"

text \<open>A helper that only reports the operation code it was called with.\<close>

definition code_passed :: "('p, 'o, 'c, string) helper" where
  "code_passed this code schema params options callback = code"

section \<open>The skeleton class of lib/index.js\<close>

record lib_client =
  lib_username :: jsval
  lib_password :: jsval
  lib_merchant :: jsval
  lib_terminal :: jsval

definition lib_constructor :: "jsval \<Rightarrow> js_error + lib_client" where
  "lib_constructor options0 =
     (let options = js_or options0 (JObj []) in
      case get_prop options ''username'' of Inl e \<Rightarrow> Inl e | Inr u \<Rightarrow>
      case get_prop options ''password'' of Inl e \<Rightarrow> Inl e | Inr p \<Rightarrow>
      case get_prop options ''merchant'' of Inl e \<Rightarrow> Inl e | Inr m \<Rightarrow>
      case get_prop options ''terminal'' of Inl e \<Rightarrow> Inl e | Inr t \<Rightarrow>
      Inr \<lparr> lib_username = u, lib_password = p, lib_merchant = m, lib_terminal = t \<rparr>)"

text \<open>Its methods have empty bodies: a call returns undefined and does nothing else.\<close>

definition lib_sell :: "lib_client \<Rightarrow> jsval \<Rightarrow> jsval \<Rightarrow> jsval \<Rightarrow> jsval" where
  "lib_sell this params options callback = JUndefined"

definition lib_preAuth :: "lib_client \<Rightarrow> jsval \<Rightarrow> jsval \<Rightarrow> jsval \<Rightarrow> jsval" where
  "lib_preAuth this params options callback = JUndefined"

definition lib_postAuth :: "lib_client \<Rightarrow> jsval \<Rightarrow> jsval \<Rightarrow> jsval \<Rightarrow> jsval" where
  "lib_postAuth this params options callback = JUndefined"

definition lib_reAuth :: "lib_client \<Rightarrow> jsval \<Rightarrow> jsval \<Rightarrow> jsval \<Rightarrow> jsval" where
  "lib_reAuth this params options callback = JUndefined"

definition lib_return :: "lib_client \<Rightarrow> jsval \<Rightarrow> jsval \<Rightarrow> jsval \<Rightarrow> jsval" where
  "lib_return this params options callback = JUndefined"

definition lib_cancel :: "lib_client \<Rightarrow> jsval \<Rightarrow> jsval \<Rightarrow> jsval \<Rightarrow> jsval" where
  "lib_cancel this params options callback = JUndefined"

definition lib_reverse :: "lib_client \<Rightarrow> jsval \<Rightarrow> jsval \<Rightarrow> jsval \<Rightarrow> jsval" where
  "lib_reverse this params options callback = JUndefined"

definition lib_close :: "lib_client \<Rightarrow> jsval \<Rightarrow> jsval \<Rightarrow> jsval \<Rightarrow> jsval" where
  "lib_close this params options callback = JUndefined"

definition lib_closeGroup :: "lib_client \<Rightarrow> jsval \<Rightarrow> jsval \<Rightarrow> jsval \<Rightarrow> jsval" where
  "lib_closeGroup this params options callback = JUndefined"

definition lib_verify :: "lib_client \<Rightarrow> jsval \<Rightarrow> jsval \<Rightarrow> jsval \<Rightarrow> jsval" where
  "lib_verify this params options callback = JUndefined"

definition lib_suspend :: "lib_client \<Rightarrow> jsval \<Rightarrow> jsval \<Rightarrow> jsval \<Rightarrow> jsval" where
  "lib_suspend this params options callback = JUndefined"

definition lib_reactivate :: "lib_client \<Rightarrow> jsval \<Rightarrow> jsval \<Rightarrow> jsval \<Rightarrow> jsval" where
  "lib_reactivate this params options callback = JUndefined"

section \<open>The dispatch helper\<close>

subsection \<open>Schema Validator\<close>

datatype validation_error =
    MissingField string
  | WrongKind string kind
  | TooLong string nat


text \<open>
  Modelled from the spec: the module \<^verbatim>\<open>./request\<close> that \<^verbatim>\<open>Payworks.request\<close> is loaded from
  is not among the sources, and with it the lookup of a declared field in the caller's
  parameters. A field counts as supplied when it is present and not undefined
  ("required and absent/undefined").
\<close>

definition supplied :: "(string \<times> jsval) list \<Rightarrow> string \<Rightarrow> jsval option" where
  "supplied params n =
     (case map_of params n of
        None \<Rightarrow> None
      | Some v \<Rightarrow> (if v = JUndefined then None else Some v))"

text \<open>
  Modelled from the spec: the check of one supplied value, missing with \<^verbatim>\<open>./request\<close>.
  "Numeric fields must parse as numbers; string fields must be strings", a mismatch names
  the field and the expected kind; "if a max length is declared and the string's length
  exceeds it", the error names the field and the limit. How a string is parsed as a
  number is not said: the parser is the argument \<open>parse\<close>. The result is the normalized
  value (a number for a numeric field).
\<close>

definition check_value ::
  "(string \<Rightarrow> rat option) \<Rightarrow> string \<Rightarrow> joi_schema \<Rightarrow> jsval \<Rightarrow> validation_error + jsval" where
  "check_value parse n f v =
     (case kind f of
        KNumber \<Rightarrow>
          (case v of
             JNum r \<Rightarrow> Inr (JNum r)
           | JStr s \<Rightarrow> (case parse s of
                          Some r \<Rightarrow> Inr (JNum r)
                        | None \<Rightarrow> Inl (WrongKind n KNumber))
           | _ \<Rightarrow> Inl (WrongKind n KNumber))
      | KString \<Rightarrow>
          (case v of
             JStr s \<Rightarrow> (case max_len f of
                          None \<Rightarrow> Inr (JStr s)
                        | Some m \<Rightarrow> (if m < length s then Inl (TooLong n m) else Inr (JStr s)))
           | _ \<Rightarrow> Inl (WrongKind n KString)))"

text \<open>
  Modelled from the spec: \<^verbatim>\<open>validate(schema, params)\<close> of the Schema Validator, missing with
  \<^verbatim>\<open>./request\<close>. The declared fields are gone through in the order of the schema and the
  first violation is the error; a field that is not required and not supplied is left
  alone; fields the schema does not declare are never looked at. The result is a
  normalized copy of the parameters.
\<close>

fun validate ::
  "(string \<Rightarrow> rat option) \<Rightarrow> schema \<Rightarrow> (string \<times> jsval) list
     \<Rightarrow> validation_error + (string \<times> jsval) list" where
  "validate parse [] params = Inr params"
| "validate parse ((n, f) # rest) params =
     (case supplied params n of
        None \<Rightarrow> (if required f then Inl (MissingField n) else validate parse rest params)
      | Some v \<Rightarrow>
          (case check_value parse n f v of
             Inl e \<Rightarrow> Inl e
           | Inr v' \<Rightarrow> validate parse rest (set_prop params n v')))"

subsection \<open>Credential Merger\<close>

datatype credential = CUser | CPassword | CMerchant | CTerminal

text \<open>The name under which the constructor stores each default in \<^verbatim>\<open>this.default\<close>.\<close>

fun default_key :: "credential \<Rightarrow> string" where
  "default_key CUser = ''user''"
| "default_key CPassword = ''password''"
| "default_key CMerchant = ''merchant_id''"
| "default_key CTerminal = ''terminal_id''"

text \<open>The name of the constructor option each default is read from.\<close>

fun option_key :: "credential \<Rightarrow> string" where
  "option_key CUser = ''user''"
| "option_key CPassword = ''password''"
| "option_key CMerchant = ''merchant''"
| "option_key CTerminal = ''terminal''"

text \<open>
  Modelled from the spec: the names of the credential overrides in the per-call options
  object ("may carry credential overrides (username, password, merchant, terminal)"),
  read by the missing \<^verbatim>\<open>./request\<close>.
\<close>

fun override_key :: "credential \<Rightarrow> string" where
  "override_key CUser = ''username''"
| "override_key CPassword = ''password''"
| "override_key CMerchant = ''merchant''"
| "override_key CTerminal = ''terminal''"

type_synonym credentials = "credential \<Rightarrow> jsval option"

definition client_defaults :: "client \<Rightarrow> credentials" where
  "client_defaults this c = map_of (default_cred this) (default_key c)"

text \<open>
  Modelled from the spec: the "credential-shaped fields found in per-call options", which
  the missing \<^verbatim>\<open>./request\<close> takes from the options object when there is one.
\<close>

definition percall_overrides :: "(string \<times> jsval) list option \<Rightarrow> credentials" where
  "percall_overrides opts c =
     (case opts of None \<Rightarrow> None | Some kvs \<Rightarrow> map_of kvs (override_key c))"

text \<open>
  Modelled from the spec: \<^verbatim>\<open>merge(clientDefaults, perCallOverrides)\<close> of the Credential
  Merger, missing with \<^verbatim>\<open>./request\<close>. A field present in the overrides wins, otherwise the
  default is taken, and a field in neither is not in the result.
\<close>

definition merge :: "credentials \<Rightarrow> credentials \<Rightarrow> credentials" where
  "merge clientDefaults perCallOverrides c =
     (case perCallOverrides c of
        Some v \<Rightarrow> Some v
      | None \<Rightarrow> clientDefaults c)"

subsection \<open>Invocation Adapter\<close>

record invocation =
  inv_callback :: "nat option"
  inv_options :: "(string \<times> jsval) list option"

definition as_object :: "jsval \<Rightarrow> (string \<times> jsval) list option" where
  "as_object v = (case v of JObj kvs \<Rightarrow> Some kvs | _ \<Rightarrow> None)"

text \<open>
  Modelled from the spec: the Invocation Adapter, missing with \<^verbatim>\<open>./request\<close>. A function in
  second place is the callback and an object in first place the per-call options; else a
  function in first place is the callback and there are no options; else there is no
  callback and an object in first place is the options.
\<close>

definition invocation_adapter :: "jsval \<Rightarrow> jsval \<Rightarrow> invocation" where
  "invocation_adapter options callback =
     (case callback of
        JFun g \<Rightarrow> \<lparr> inv_callback = Some g, inv_options = as_object options \<rparr>
      | _ \<Rightarrow>
          (case options of
             JFun g \<Rightarrow> \<lparr> inv_callback = Some g, inv_options = None \<rparr>
           | _ \<Rightarrow> \<lparr> inv_callback = None, inv_options = as_object options \<rparr>))"

subsection \<open>Dispatch Core\<close>

record transaction_request =
  req_operation :: string
  req_fields :: "(string \<times> jsval) list"
  req_credentials :: credentials

datatype gateway_status = Approved | Declined | Unrecognized string

record response =
  status :: gateway_status
  body :: "(string \<times> jsval) list"

text \<open>
  What the transport collaborator does with a request: it fails, it answers, or it never
  completes ("a hung transport call leaves the dual object pending indefinitely").
\<close>

datatype transport_reply = NoReply | TransportFailed string | Replied response

datatype call_error =
    ValidationError validation_error
  | TransportError string
  | DeclineError response
  | UnexpectedResponseError response

datatype outcome = Success response | Decline response | Failure call_error

datatype payload = Result response | Error call_error

text \<open>
  What a call does that can be seen from outside, in the order it happens: a request handed
  to the transport, the callback called, the promise of the returned object resolved or
  rejected, an event emitted on the returned object.
\<close>

datatype effect =
    Sent transaction_request
  | CallbackInvoked nat payload
  | PromiseResolved response
  | PromiseRejected call_error
  | EventEmitted string payload

record call =
  call_outcome :: "outcome option"
  call_effects :: "effect list"

record env =
  parse_number :: "string \<Rightarrow> rat option"
  transport :: "transaction_request \<Rightarrow> transport_reply"

text \<open>
  Modelled from the spec: how the missing \<^verbatim>\<open>./request\<close> reads a gateway response (step 7):
  approved is a Success, declined a Decline, any other status a Failure describing the
  unexpected response.
\<close>

definition interpret_response :: "response \<Rightarrow> outcome" where
  "interpret_response r =
     (case status r of
        Approved \<Rightarrow> Success r
      | Declined \<Rightarrow> Decline r
      | Unrecognized s \<Rightarrow> Failure (UnexpectedResponseError r))"

text \<open>
  Modelled from the spec: what each channel of the missing \<^verbatim>\<open>./request\<close> carries. The
  callback is error-first; the promise "resolves with the Outcome payload on Success,
  rejects with an error on Decline/Failure"; the terminal event is one of "success",
  "decline", "error".
\<close>

fun payload_of :: "outcome \<Rightarrow> payload" where
  "payload_of (Success r) = Result r"
| "payload_of (Decline r) = Error (DeclineError r)"
| "payload_of (Failure e) = Error e"

fun settle :: "outcome \<Rightarrow> effect" where
  "settle (Success r) = PromiseResolved r"
| "settle (Decline r) = PromiseRejected (DeclineError r)"
| "settle (Failure e) = PromiseRejected e"

fun event_name :: "outcome \<Rightarrow> string" where
  "event_name (Success r) = ''success''"
| "event_name (Decline r) = ''decline''"
| "event_name (Failure e) = ''error''"

text \<open>
  Modelled from the spec: step 8 of the missing \<^verbatim>\<open>./request\<close>, the one completion point that
  drives the callback (if there is one), the promise and the terminal event.
\<close>

definition deliver :: "invocation \<Rightarrow> outcome \<Rightarrow> effect list" where
  "deliver style out =
     (case inv_callback style of
        None \<Rightarrow> []
      | Some g \<Rightarrow> [CallbackInvoked g (payload_of out)])
     @ [settle out, EventEmitted (event_name out) (payload_of out)]"

definition finish :: "invocation \<Rightarrow> effect list \<Rightarrow> outcome \<Rightarrow> call" where
  "finish style before out =
     \<lparr> call_outcome = Some out, call_effects = before @ deliver style out \<rparr>"

text \<open>
  Modelled from the spec: steps 3 and 4 of the missing \<^verbatim>\<open>./request\<close>, the TransactionRequest
  built from the operation code, the validated fields and the credentials merged from the
  client's defaults and the per-call options.
\<close>

definition build_request ::
  "client \<Rightarrow> string \<Rightarrow> (string \<times> jsval) list \<Rightarrow> invocation \<Rightarrow> transaction_request" where
  "build_request this operationCode validated style =
     \<lparr> req_operation = operationCode,
       req_fields = validated,
       req_credentials =
         merge (client_defaults this) (percall_overrides (inv_options style)) \<rparr>"

text \<open>
  Modelled from the spec: \<^verbatim>\<open>request(operationCode, schema, params, options, callback)\<close>, the
  Dispatch Core that \<^verbatim>\<open>Payworks.request = require('./request')\<close> loads and that is not among
  the sources, with the client as \<^verbatim>\<open>this\<close>. Steps 1 to 8 of the algorithm: resolve the
  invocation, validate, on a validation error finish with a Failure without touching the
  transport, else build the request, send it and finish with the Outcome read from the
  reply. The value is the history of the call and of the object it returns; a call whose
  transport never completes has no Outcome.
\<close>

definition request ::
  "env \<Rightarrow> client \<Rightarrow> string \<Rightarrow> schema \<Rightarrow> (string \<times> jsval) list \<Rightarrow> jsval \<Rightarrow> jsval \<Rightarrow> call" where
  "request E this operationCode schema params options callback =
     (let style = invocation_adapter options callback in
      case validate (parse_number E) schema params of
        Inl e \<Rightarrow> finish style [] (Failure (ValidationError e))
      | Inr validated \<Rightarrow>
          (let req = build_request this operationCode validated style
           in case transport E req of
                NoReply \<Rightarrow> \<lparr> call_outcome = None, call_effects = [Sent req] \<rparr>
              | TransportFailed msg \<Rightarrow> finish style [Sent req] (Failure (TransportError msg))
              | Replied r \<Rightarrow> finish style [Sent req] (interpret_response r)))"

text \<open>
  Modelled from the spec: the parameters as the missing \<^verbatim>\<open>./request\<close> gets them. The methods
  pass on whatever value the caller gave; the spec speaks of "an arbitrary key/value
  mapping" and asks of each declared field whether it is "absent/undefined". An object
  supplies its properties, and any other value supplies no field.
\<close>

definition properties_of :: "jsval \<Rightarrow> (string \<times> jsval) list" where
  "properties_of params = (case params of JObj kvs \<Rightarrow> kvs | _ \<Rightarrow> [])"

text \<open>
  Modelled from the spec: \<^verbatim>\<open>Payworks.request\<close> as the methods call it, with any value in
  the place of the parameters: the Dispatch Core run on the properties of that value.
\<close>

definition Payworks_request :: "env \<Rightarrow> (jsval, jsval, jsval, call) helper" where
  "Payworks_request E this operationCode schema params options callback =
     request E this operationCode schema (properties_of params) options callback"

subsection \<open>Reading a history\<close>

fun requests_sent :: "effect list \<Rightarrow> transaction_request list" where
  "requests_sent [] = []"
| "requests_sent (Sent req # es) = req # requests_sent es"
| "requests_sent (e # es) = requests_sent es"

fun callback_calls :: "effect list \<Rightarrow> (nat \<times> payload) list" where
  "callback_calls [] = []"
| "callback_calls (CallbackInvoked g p # es) = (g, p) # callback_calls es"
| "callback_calls (e # es) = callback_calls es"

fun promise_settlements :: "effect list \<Rightarrow> effect list" where
  "promise_settlements [] = []"
| "promise_settlements (PromiseResolved r # es) = PromiseResolved r # promise_settlements es"
| "promise_settlements (PromiseRejected x # es) = PromiseRejected x # promise_settlements es"
| "promise_settlements (e # es) = promise_settlements es"

fun events_emitted :: "effect list \<Rightarrow> (string \<times> payload) list" where
  "events_emitted [] = []"
| "events_emitted (EventEmitted n p # es) = (n, p) # events_emitted es"
| "events_emitted (e # es) = events_emitted es"


text \<open>The parameters without the fields the schema does not declare.\<close>

definition declared_part :: "schema \<Rightarrow> (string \<times> jsval) list \<Rightarrow> (string \<times> jsval) list" where
  "declared_part S params = filter (\<lambda>kv. fst kv \<in> fst ` set S) params"

text \<open>A helper that only reports the schema it was called with.\<close>

definition schema_passed :: "('p, 'o, 'c, schema) helper" where
  "schema_passed this code schema params options callback = schema"

text \<open>The error of a validation, if it fails.\<close>

definition validation_failure ::
  "(string \<Rightarrow> rat option) \<Rightarrow> schema \<Rightarrow> (string \<times> jsval) list \<Rightarrow> validation_error option" where
  "validation_failure parse S params =
     (case validate parse S params of Inl e \<Rightarrow> Some e | Inr validated \<Rightarrow> None)"

text \<open>The property of the client that holds each credential.\<close>

fun cred_property :: "client \<Rightarrow> credential \<Rightarrow> jsval" where
  "cred_property this CUser = user this"
| "cred_property this CPassword = password this"
| "cred_property this CMerchant = merchant_id this"
| "cred_property this CTerminal = terminal_id this"


text \<open>
  The operation code of each method as the specification lists them ("Public operation
  surface"), to compare with what the methods pass to the helper.
\<close>

fun spec_operation_code :: "txn_method \<Rightarrow> string" where
  "spec_operation_code Auth = ''AUTH''"
| "spec_operation_code ForceAuth = ''FORCED_AUTH''"
| "spec_operation_code PreAuth = ''PREAUTH''"
| "spec_operation_code PostAuth = ''POSTAUTH''"
| "spec_operation_code ReAuth = ''REAUTH''"
| "spec_operation_code Refund = ''REFUND''"
| "spec_operation_code Cancel = ''VOID''"
| "spec_operation_code Reverse = ''REVERSAL''"
| "spec_operation_code Close = ''MCHNT_SETTLEMENT''"
| "spec_operation_code CloseGroup = ''GROUP_SETTLEMENT''"
| "spec_operation_code Verify = ''VERIFY''"
| "spec_operation_code Suspend = ''LOCK''"
| "spec_operation_code Reactivate = ''UNLOCK''"

section \<open>Example inputs\<close>

text \<open>The client of \<^verbatim>\<open>new Payworks()\<close>.\<close>

definition new_client :: client where
  "new_client =
     \<lparr> user = JUndefined, password = JUndefined, merchant_id = JUndefined,
       terminal_id = JUndefined, default_cred = [] \<rparr>"

text \<open>A transport whose gateway approves every request, and one whose gateway declines.\<close>

definition declining_gateway :: env where
  "declining_gateway =
     \<lparr> parse_number = (\<lambda>s. None),
       transport = (\<lambda>req. Replied \<lparr> status = Declined, body = [] \<rparr>) \<rparr>"

definition approving_gateway :: env where
  "approving_gateway =
     \<lparr> parse_number = (\<lambda>s. None),
       transport = (\<lambda>req. Replied \<lparr> status = Approved, body = [] \<rparr>) \<rparr>"

section \<open>Facts about the client\<close>

lemmas method_defs =
  auth_def forceAuth_def preAuth_def postAuth_def reAuth_def refund_def cancel_def
  reverse_def close_def closeGroup_def verify_def suspend_def reactivate_def

lemma call_method_unfold:
  "call_method m req this params options callback =
     req this (spec_operation_code m)
       (call_method m schema_passed this params options callback) params options callback"
  by (cases m) (simp_all add: method_defs schema_passed_def)

lemma inj_spec_operation_code: "inj spec_operation_code"
proof (rule injI)
  fix a b
  assume "spec_operation_code a = spec_operation_code b"
  then show "a = b" by (cases a; cases b; simp)
qed

lemma get_prop_options: "\<exists>v. get_prop (js_or options (JObj [])) k = Inr v"
  by (cases options) (simp_all add: js_or_def get_prop_def)

lemma get_prop_object:
  "get_prop (js_or (JObj kvs) (JObj [])) k =
     Inr (case map_of kvs k of None \<Rightarrow> JUndefined | Some v \<Rightarrow> v)"
  by (simp add: js_or_def get_prop_def split: option.splits)

lemma constructor_result:
  assumes "get_prop (js_or options (JObj [])) ''user'' = Inr u"
    and "get_prop (js_or options (JObj [])) ''password'' = Inr p"
    and "get_prop (js_or options (JObj [])) ''merchant'' = Inr m"
    and "get_prop (js_or options (JObj [])) ''terminal'' = Inr t"
  shows "constructor options =
     Inr \<lparr> user = u, password = p, merchant_id = m, terminal_id = t,
           default_cred =
              and_set t ''terminal_id''
                (and_set m ''merchant_id''
                  (and_set p ''password''
                    (and_set u ''user'' []))) \<rparr>"
  using assms by (simp add: constructor_def Let_def)

lemma defaults_after_and_set:
  "map_of (and_set t ''terminal_id''
            (and_set m ''merchant_id''
              (and_set p ''password''
                (and_set u ''user'' [])))) k =
   (if k = ''user'' \<and> truthy u then Some u
    else if k = ''password'' \<and> truthy p then Some p
    else if k = ''merchant_id'' \<and> truthy m then Some m
    else if k = ''terminal_id'' \<and> truthy t then Some t
    else None)"
  by (simp add: and_set_def)

text \<open>
  The constructor never fails; the client it makes holds each option as a property, and
  its defaults are exactly the truthy ones, under the four default names.
\<close>

lemma constructor_total:
  obtains this where "constructor options = Inr this"
    and "\<And>c. get_prop (js_or options (JObj [])) (option_key c) = Inr (cred_property this c)"
    and "\<And>c. client_defaults this c =
               (if truthy (cred_property this c) then Some (cred_property this c) else None)"
    and "\<And>k. map_of (default_cred this) k \<noteq> None \<Longrightarrow> k \<in> range default_key"
proof -
  obtain u p m t where g:
    "get_prop (js_or options (JObj [])) ''user'' = Inr u"
    "get_prop (js_or options (JObj [])) ''password'' = Inr p"
    "get_prop (js_or options (JObj [])) ''merchant'' = Inr m"
    "get_prop (js_or options (JObj [])) ''terminal'' = Inr t"
    using get_prop_options by metis
  let ?cl = "\<lparr> user = u, password = p, merchant_id = m, terminal_id = t,
           default_cred =
              and_set t ''terminal_id''
                (and_set m ''merchant_id''
                  (and_set p ''password''
                    (and_set u ''user'' []))) \<rparr>"
  have c: "constructor options = Inr ?cl" by (rule constructor_result [OF g])
  have 1: "get_prop (js_or options (JObj [])) (option_key c) = Inr (cred_property ?cl c)" for c
    by (cases c) (simp_all add: g)
  have 2: "client_defaults ?cl c =
             (if truthy (cred_property ?cl c) then Some (cred_property ?cl c) else None)" for c
    by (cases c) (simp_all add: client_defaults_def defaults_after_and_set)
  have 3: "k \<in> range default_key" if "map_of (default_cred ?cl) k \<noteq> None" for k
  proof -
    from that have "k = ''user'' \<or> k = ''password'' \<or> k = ''merchant_id'' \<or> k = ''terminal_id''"
      by (simp add: defaults_after_and_set split: if_splits)
    then have "k = default_key CUser \<or> k = default_key CPassword
        \<or> k = default_key CMerchant \<or> k = default_key CTerminal"
      by simp
    then show ?thesis by blast
  qed
  from c 1 2 3 show ?thesis by (rule that)
qed

section \<open>Facts about the validator\<close>

lemma map_of_set_prop:
  "map_of (set_prop ps n v) k = (if k = n then Some v else map_of ps k)"
  by (induction ps) auto


text \<open>Only the declared fields decide whether validation fails, and with which error.\<close>

lemma validate_agree:
  "(\<And>n. n \<in> fst ` set S \<Longrightarrow> map_of ps n = map_of qs n)
     \<Longrightarrow> validation_failure P S ps = validation_failure P S qs"
proof (induction S arbitrary: ps qs)
  case Nil
  then show ?case by (simp add: validation_failure_def)
next
  case (Cons d S)
  obtain n f where d: "d = (n, f)" by (cases d)
  have here: "supplied ps n = supplied qs n"
    using Cons.prems [of n] by (simp add: d supplied_def)
  have rest: "\<And>k. k \<in> fst ` set S \<Longrightarrow> map_of ps k = map_of qs k"
    using Cons.prems by simp
  show ?case
  proof (cases "supplied qs n")
    case None
    with here Cons.IH [OF rest] show ?thesis
      by (simp add: d validation_failure_def)
  next
    case (Some v)
    show ?thesis
    proof (cases "check_value P n f v")
      case (Inl e)
      with Some here show ?thesis by (simp add: d validation_failure_def)
    next
      case (Inr v')
      have "validation_failure P S (set_prop ps n v') = validation_failure P S (set_prop qs n v')"
        by (rule Cons.IH) (simp add: map_of_set_prop rest)
      with Inr Some here show ?thesis by (simp add: d validation_failure_def)
    qed
  qed
qed

lemma map_of_declared_part:
  "n \<in> fst ` set S \<Longrightarrow> map_of (declared_part S ps) n = map_of ps n"
proof (induction ps)
  case Nil
  then show ?case by (simp add: declared_part_def)
next
  case (Cons kv ps)
  then show ?case by (cases "fst kv = n") (auto simp: declared_part_def)
qed

lemma validate_keeps_undeclared:
  "validate P S ps = Inr out \<Longrightarrow> k \<notin> fst ` set S \<Longrightarrow> map_of out k = map_of ps k"
proof (induction S arbitrary: ps)
  case Nil
  then show ?case by simp
next
  case (Cons d S)
  obtain n f where d: "d = (n, f)" by (cases d)
  from Cons.prems(2) have kn: "k \<noteq> n" and kS: "k \<notin> fst ` set S" by (auto simp: d)
  show ?case
  proof (cases "supplied ps n")
    case None
    with Cons.prems(1) have "validate P S ps = Inr out"
      by (simp add: d split: if_splits)
    then show ?thesis using Cons.IH kS by blast
  next
    case (Some v)
    with Cons.prems(1) obtain v' where "validate P S (set_prop ps n v') = Inr out"
      by (auto simp: d split: sum.splits)
    then have "map_of out k = map_of (set_prop ps n v') k" using Cons.IH kS by blast
    then show ?thesis using kn by (simp add: map_of_set_prop)
  qed
qed





section \<open>Facts about the dispatch helper\<close>

lemma requests_sent_append: "requests_sent (a @ b) = requests_sent a @ requests_sent b"
  by (induction a rule: requests_sent.induct) simp_all

lemma callback_calls_append: "callback_calls (a @ b) = callback_calls a @ callback_calls b"
  by (induction a rule: callback_calls.induct) simp_all

lemma promise_settlements_append:
  "promise_settlements (a @ b) = promise_settlements a @ promise_settlements b"
  by (induction a rule: promise_settlements.induct) simp_all

lemma events_emitted_append: "events_emitted (a @ b) = events_emitted a @ events_emitted b"
  by (induction a rule: events_emitted.induct) simp_all

lemma deliver_requests_sent: "requests_sent (deliver style out) = []"
  by (cases out) (simp_all add: deliver_def requests_sent_append split: option.splits)

lemma deliver_callback_calls:
  "callback_calls (deliver style out) =
     (case inv_callback style of None \<Rightarrow> [] | Some g \<Rightarrow> [(g, payload_of out)])"
  by (cases out) (simp_all add: deliver_def callback_calls_append split: option.splits)

lemma deliver_promise_settlements: "promise_settlements (deliver style out) = [settle out]"
  by (cases out) (simp_all add: deliver_def promise_settlements_append split: option.splits)

lemma deliver_events_emitted:
  "events_emitted (deliver style out) = [(event_name out, payload_of out)]"
  by (cases out) (simp_all add: deliver_def events_emitted_append split: option.splits)

lemmas finish_reads =
  finish_def requests_sent_append callback_calls_append promise_settlements_append
  events_emitted_append deliver_requests_sent deliver_callback_calls
  deliver_promise_settlements deliver_events_emitted

lemma request_invalid:
  "validate (parse_number E) S params = Inl e \<Longrightarrow>
     request E this code S params options callback =
       finish (invocation_adapter options callback) [] (Failure (ValidationError e))"
  by (simp add: request_def)

lemma request_valid:
  "validate (parse_number E) S params = Inr validated \<Longrightarrow>
     request E this code S params options callback =
       (case transport E
               (build_request this code validated (invocation_adapter options callback)) of
          NoReply \<Rightarrow>
            \<lparr> call_outcome = None,
              call_effects =
                [Sent (build_request this code validated
                         (invocation_adapter options callback))] \<rparr>
        | TransportFailed msg \<Rightarrow>
            finish (invocation_adapter options callback)
              [Sent (build_request this code validated (invocation_adapter options callback))]
              (Failure (TransportError msg))
        | Replied r \<Rightarrow>
            finish (invocation_adapter options callback)
              [Sent (build_request this code validated (invocation_adapter options callback))]
              (interpret_response r))"
  unfolding request_def Let_def by simp

text \<open>The three ways a call can go.\<close>

lemma request_cases:
  obtains (invalid) e where "validate (parse_number E) S params = Inl e"
      "request E this code S params options callback =
         finish (invocation_adapter options callback) [] (Failure (ValidationError e))"
  | (hung) validated where "validate (parse_number E) S params = Inr validated"
      "transport E (build_request this code validated (invocation_adapter options callback))
         = NoReply"
      "request E this code S params options callback =
         \<lparr> call_outcome = None,
           call_effects =
             [Sent (build_request this code validated
                      (invocation_adapter options callback))] \<rparr>"
  | (finished) validated out where "validate (parse_number E) S params = Inr validated"
      "request E this code S params options callback =
         finish (invocation_adapter options callback)
           [Sent (build_request this code validated (invocation_adapter options callback))]
           out"
proof (cases "validate (parse_number E) S params")
  case (Inl e)
  then show ?thesis using invalid request_invalid by blast
next
  case (Inr validated)
  show ?thesis
  proof (cases "transport E
                  (build_request this code validated (invocation_adapter options callback))")
    case NoReply
    with Inr show ?thesis using hung request_valid [OF Inr] by simp
  next
    case (TransportFailed msg)
    with Inr show ?thesis using finished [of validated] request_valid [OF Inr] by simp
  next
    case (Replied r)
    with Inr show ?thesis using finished [of validated] request_valid [OF Inr] by simp
  qed
qed


text \<open>The callback the adapter finds, read off the two trailing arguments.\<close>

lemma callback_of_arguments:
  "inv_callback (invocation_adapter options callback) =
     (case callback of
        JFun g \<Rightarrow> Some g
      | _ \<Rightarrow> (case options of JFun g \<Rightarrow> Some g | _ \<Rightarrow> None))"
  by (simp add: invocation_adapter_def split: jsval.splits)


text \<open>A call on a transport that always completes reaches its Outcome.\<close>

lemma request_completes:
  assumes "\<And>req. transport E req \<noteq> NoReply"
  obtains out before where
    "request E this code S params options callback =
       finish (invocation_adapter options callback) before out"
    "callback_calls before = []" "promise_settlements before = []" "events_emitted before = []"
proof (cases rule: request_cases [of E S params this code options callback])
  case (invalid e)
  then show ?thesis using that [of "[]"] by simp
next
  case (hung validated)
  with assms show ?thesis by simp
next
  case (finished validated out)
  then show ?thesis using that [of "[Sent (build_request this code validated
      (invocation_adapter options callback))]" out] by simp
qed

text \<open>
  On a transport that never completes a call with valid parameters has no Outcome, and
  nothing is delivered on any channel ("a hung transport call leaves the dual object
  pending indefinitely").
\<close>

lemma hung_transport_leaves_pending:
  assumes "validate (parse_number E) S params = Inr validated"
    and "\<And>req. transport E req = NoReply"
  shows "call_outcome (request E this code S params options callback) = None"
    and "callback_calls (call_effects (request E this code S params options callback)) = []"
    and "promise_settlements (call_effects (request E this code S params options callback)) = []"
    and "events_emitted (call_effects (request E this code S params options callback)) = []"
  using request_valid [OF assms(1), of this code options callback] assms(2)
  by simp_all

section \<open>Claims about the client\<close>

text \<open>
  C8. Each transaction method calls the dispatch helper once, with its own fixed operation
  code, whatever the client, the parameters, the options and the callback are: auth with
  AUTH, forceAuth with FORCED_AUTH, preAuth with PREAUTH, postAuth with POSTAUTH, reAuth
  with REAUTH, refund with REFUND, cancel with VOID, reverse with REVERSAL, close with
  MCHNT_SETTLEMENT, closeGroup with GROUP_SETTLEMENT, verify with VERIFY, suspend with
  LOCK, reactivate with UNLOCK; and no two methods share a code.
\<close>

theorem method_sends_fixed_operation_code:
  "call_method m req this params options callback =
     req this (spec_operation_code m)
       (call_method m schema_passed this params options callback) params options callback
   \<and> call_method m code_passed this params options callback = spec_operation_code m
   \<and> inj spec_operation_code"
  by (cases m) (simp_all add: method_defs schema_passed_def code_passed_def inj_spec_operation_code)

theorem method_sends_fixed_operation_code_witness:
  "cancel code_passed new_client [(''reference'', JStr ''abc123'')] JUndefined JUndefined
     = ''VOID''"
  using method_sends_fixed_operation_code
    [of Cancel code_passed new_client "[(''reference'', JStr ''abc123'')]" JUndefined JUndefined]
  by (simp add: code_passed_def)

text \<open>
  C9. Constructing a client with options undefined or null succeeds: the four credential
  properties are undefined and the default credential set is empty. The same holds of
  the four properties of the skeleton class in lib/index.js.
\<close>

theorem constructor_without_options:
  "constructor JUndefined = Inr new_client
   \<and> constructor JNull = Inr new_client
   \<and> new_client =
       \<lparr> user = JUndefined, password = JUndefined, merchant_id = JUndefined,
         terminal_id = JUndefined, default_cred = [] \<rparr>
   \<and> lib_constructor JUndefined =
       Inr \<lparr> lib_username = JUndefined, lib_password = JUndefined,
             lib_merchant = JUndefined, lib_terminal = JUndefined \<rparr>
   \<and> lib_constructor JNull =
       Inr \<lparr> lib_username = JUndefined, lib_password = JUndefined,
             lib_merchant = JUndefined, lib_terminal = JUndefined \<rparr>"
  by (simp add: constructor_def lib_constructor_def js_or_def get_prop_def and_set_def
      new_client_def)

text \<open>
  C10. For any options value the constructor succeeds, each credential property of the
  client is the option read from the options, and the default credential set holds a
  credential exactly when that property is truthy, with its value; a falsy one (empty
  string, 0, null, undefined) is left out as if it had been omitted. The default set has
  no other field.
\<close>

theorem default_iff_truthy:
  "\<exists>this. constructor options = Inr this
     \<and> (\<forall>c. get_prop (js_or options (JObj [])) (option_key c) = Inr (cred_property this c))
     \<and> (\<forall>c. (client_defaults this c \<noteq> None) = truthy (cred_property this c))
     \<and> (\<forall>c. client_defaults this c =
               (if truthy (cred_property this c) then Some (cred_property this c) else None))
     \<and> (\<forall>k. map_of (default_cred this) k \<noteq> None \<longrightarrow> k \<in> range default_key)"
proof -
  obtain cl where c: "constructor options = Inr cl"
    and g: "\<And>c. get_prop (js_or options (JObj [])) (option_key c) = Inr (cred_property cl c)"
    and d: "\<And>c. client_defaults cl c =
               (if truthy (cred_property cl c) then Some (cred_property cl c) else None)"
    and k: "\<And>k. map_of (default_cred cl) k \<noteq> None \<Longrightarrow> k \<in> range default_key"
    by (rule constructor_total [of options]) blast
  from d have "\<forall>c. (client_defaults cl c \<noteq> None) = truthy (cred_property cl c)" by simp
  with c g d k show ?thesis by blast
qed

theorem default_iff_truthy_witness:
  "constructor (JObj [(''user'', JStr ''a7652969''), (''password'', JStr ''''),
                      (''merchant'', JNum 0), (''terminal'', JStr ''07652969'')])
     = Inr \<lparr> user = JStr ''a7652969'', password = JStr '''', merchant_id = JNum 0,
             terminal_id = JStr ''07652969'',
             default_cred = [(''user'', JStr ''a7652969''),
                             (''terminal_id'', JStr ''07652969'')] \<rparr>"
  using default_iff_truthy
    [of "JObj [(''user'', JStr ''a7652969''), (''password'', JStr ''''),
               (''merchant'', JNum 0), (''terminal'', JStr ''07652969'')]"]
  by (simp add: constructor_def js_or_def get_prop_def and_set_def)

text \<open>
  C5, as the code has it. The constructor of the client takes an options object and never
  fails. It reads the options user, password, merchant and terminal (not username): each
  one supplied with a truthy value becomes the default credential of its role, each one
  omitted leaves that role without a default. The skeleton class of lib/index.js reads
  username, password, merchant and terminal and keeps each as a property.
\<close>

theorem constructor_reads_options:
  "(\<exists>this. constructor (JObj kvs) = Inr this
      \<and> (\<forall>c. cred_property this c =
                (case map_of kvs (option_key c) of None \<Rightarrow> JUndefined | Some v \<Rightarrow> v))
      \<and> (\<forall>c. client_defaults this c =
                (case map_of kvs (option_key c) of
                   None \<Rightarrow> None
                 | Some v \<Rightarrow> (if truthy v then Some v else None))))
   \<and> lib_constructor (JObj kvs) =
       Inr \<lparr> lib_username = (case map_of kvs ''username'' of None \<Rightarrow> JUndefined | Some v \<Rightarrow> v),
             lib_password = (case map_of kvs ''password'' of None \<Rightarrow> JUndefined | Some v \<Rightarrow> v),
             lib_merchant = (case map_of kvs ''merchant'' of None \<Rightarrow> JUndefined | Some v \<Rightarrow> v),
             lib_terminal = (case map_of kvs ''terminal'' of None \<Rightarrow> JUndefined | Some v \<Rightarrow> v) \<rparr>"
proof
  obtain cl where c: "constructor (JObj kvs) = Inr cl"
    and g: "\<And>c. get_prop (js_or (JObj kvs) (JObj [])) (option_key c) = Inr (cred_property cl c)"
    and d: "\<And>c. client_defaults cl c =
               (if truthy (cred_property cl c) then Some (cred_property cl c) else None)"
    by (rule constructor_total [of "JObj kvs"]) blast
  have p: "cred_property cl c =
             (case map_of kvs (option_key c) of None \<Rightarrow> JUndefined | Some v \<Rightarrow> v)" for c
    using g [of c] by (simp add: get_prop_object)
  have "client_defaults cl c =
          (case map_of kvs (option_key c) of
             None \<Rightarrow> None
           | Some v \<Rightarrow> (if truthy v then Some v else None))" for c
    by (simp add: d p split: option.splits)
  with c p show "\<exists>this. constructor (JObj kvs) = Inr this
      \<and> (\<forall>c. cred_property this c =
                (case map_of kvs (option_key c) of None \<Rightarrow> JUndefined | Some v \<Rightarrow> v))
      \<and> (\<forall>c. client_defaults this c =
                (case map_of kvs (option_key c) of
                   None \<Rightarrow> None
                 | Some v \<Rightarrow> (if truthy v then Some v else None)))"
    by blast
next
  show "lib_constructor (JObj kvs) =
       Inr \<lparr> lib_username = (case map_of kvs ''username'' of None \<Rightarrow> JUndefined | Some v \<Rightarrow> v),
             lib_password = (case map_of kvs ''password'' of None \<Rightarrow> JUndefined | Some v \<Rightarrow> v),
             lib_merchant = (case map_of kvs ''merchant'' of None \<Rightarrow> JUndefined | Some v \<Rightarrow> v),
             lib_terminal = (case map_of kvs ''terminal'' of None \<Rightarrow> JUndefined | Some v \<Rightarrow> v) \<rparr>"
    by (simp add: lib_constructor_def Let_def get_prop_object)
qed

theorem constructor_reads_options_witness:
  "constructor (JObj [(''user'', JStr ''a7652969''), (''merchant'', JStr ''7652969'')])
     = Inr \<lparr> user = JStr ''a7652969'', password = JUndefined,
             merchant_id = JStr ''7652969'', terminal_id = JUndefined,
             default_cred = [(''user'', JStr ''a7652969''),
                             (''merchant_id'', JStr ''7652969'')] \<rparr>
   \<and> lib_constructor (JObj [(''user'', JStr ''a7652969''), (''merchant'', JStr ''7652969'')])
     = Inr \<lparr> lib_username = JUndefined, lib_password = JUndefined,
             lib_merchant = JStr ''7652969'', lib_terminal = JUndefined \<rparr>"
  using constructor_reads_options
    [of "[(''user'', JStr ''a7652969''), (''merchant'', JStr ''7652969'')]"]
  by (simp add: constructor_def js_or_def get_prop_def and_set_def)

text \<open>
  C5 as stated fails: a username and a password supplied to the constructor, the password
  empty, leave the default credential set empty, and the user property undefined.
\<close>

theorem constructor_ignores_username:
  "constructor (JObj [(''username'', JStr ''a7652969''), (''password'', JStr '''')])
     = Inr \<lparr> user = JUndefined, password = JStr '''', merchant_id = JUndefined,
             terminal_id = JUndefined, default_cred = [] \<rparr>"
  by (simp add: constructor_def js_or_def get_prop_def and_set_def)


section \<open>Claims about the dispatch helper\<close>

text \<open>
  C2. If validation of the parameters against the schema fails, the call ends with a
  Failure Outcome carrying the validation error and no request is handed to the
  transport, for every operation code, schema, parameters, options and callback.
\<close>

theorem invalid_params_never_reach_transport:
  assumes "validate (parse_number E) S params = Inl e"
  shows "call_outcome (request E this code S params options callback) =
           Some (Failure (ValidationError e))
       \<and> requests_sent (call_effects (request E this code S params options callback)) = []"
  using request_invalid [OF assms] by (simp add: finish_reads)

theorem invalid_params_never_reach_transport_witness:
  "validate (parse_number approving_gateway) [(''reference'', joi_required joi_string)]
      [(''reference'', JNum 5)] = Inl (WrongKind ''reference'' KString)
   \<and> call_outcome (request approving_gateway new_client ''VOID''
        [(''reference'', joi_required joi_string)] [(''reference'', JNum 5)]
        JUndefined JUndefined) = Some (Failure (ValidationError (WrongKind ''reference'' KString)))
   \<and> requests_sent (call_effects (request approving_gateway new_client ''VOID''
        [(''reference'', joi_required joi_string)] [(''reference'', JNum 5)]
        JUndefined JUndefined)) = []"
proof -
  have v: "validate (parse_number approving_gateway) [(''reference'', joi_required joi_string)]
      [(''reference'', JNum 5)] = Inl (WrongKind ''reference'' KString)"
    by (simp add: supplied_def check_value_def joi_required_def joi_string_def)
  from v invalid_params_never_reach_transport [OF v] show ?thesis by simp
qed

text \<open>
  C1. For every call of the dispatch helper, with any parameters, options and callback, on
  a transport that completes (spec section 5 leaves a call on a hung transport pending),
  there is one Outcome and it is delivered exactly once on every active channel: the
  callback is called once when a function was passed in second place, or else in first
  place, and never when neither argument is a function; the promise of the returned
  object is settled once; one terminal event is emitted; each carries that Outcome.
\<close>

theorem outcome_delivered_exactly_once:
  assumes "\<And>req. transport E req \<noteq> NoReply"
  shows "\<exists>out. call_outcome (Payworks_request E this code S params options callback) = Some out
     \<and> callback_calls (call_effects (Payworks_request E this code S params options callback)) =
         (case callback of
            JFun g \<Rightarrow> [(g, payload_of out)]
          | _ \<Rightarrow> (case options of JFun g \<Rightarrow> [(g, payload_of out)] | _ \<Rightarrow> []))
     \<and> promise_settlements
           (call_effects (Payworks_request E this code S params options callback)) = [settle out]
     \<and> events_emitted
           (call_effects (Payworks_request E this code S params options callback)) =
         [(event_name out, payload_of out)]"
proof -
  obtain out before where r:
      "request E this code S (properties_of params) options callback =
         finish (invocation_adapter options callback) before out"
    and b: "callback_calls before = []" "promise_settlements before = []"
      "events_emitted before = []"
    by (rule request_completes [OF assms, of this code S "properties_of params" options callback])
      blast
  have cb: "callback_calls (deliver (invocation_adapter options callback) out) =
         (case callback of
            JFun g \<Rightarrow> [(g, payload_of out)]
          | _ \<Rightarrow> (case options of JFun g \<Rightarrow> [(g, payload_of out)] | _ \<Rightarrow> []))"
    by (simp add: deliver_callback_calls callback_of_arguments split: jsval.splits)
  show ?thesis
    unfolding Payworks_request_def r
    by (simp add: finish_def callback_calls_append promise_settlements_append
        events_emitted_append b cb deliver_promise_settlements deliver_events_emitted)
qed

theorem outcome_delivered_exactly_once_witness:
  "callback_calls (call_effects (Payworks_request approving_gateway new_client ''VOID''
        [(''reference'', joi_required joi_string)] (JObj [(''reference'', JStr ''abc123'')])
        JUndefined (JFun 7))) = [(7, Result \<lparr> status = Approved, body = [] \<rparr>)]
   \<and> promise_settlements (call_effects (Payworks_request approving_gateway new_client ''VOID''
        [(''reference'', joi_required joi_string)] (JObj [(''reference'', JStr ''abc123'')])
        JUndefined (JFun 7))) = [PromiseResolved \<lparr> status = Approved, body = [] \<rparr>]
   \<and> events_emitted (call_effects (Payworks_request approving_gateway new_client ''VOID''
        [(''reference'', joi_required joi_string)] (JObj [(''reference'', JStr ''abc123'')])
        JUndefined (JFun 7))) = [(''success'', Result \<lparr> status = Approved, body = [] \<rparr>)]
   \<and> callback_calls (call_effects (Payworks_request approving_gateway new_client ''VOID''
        [(''reference'', joi_required joi_string)] (JObj []) (JFun 3) JUndefined))
       = [(3, Error (ValidationError (MissingField ''reference'')))]
   \<and> promise_settlements (call_effects (Payworks_request approving_gateway new_client ''VOID''
        [(''reference'', joi_required joi_string)] (JObj []) (JFun 3) JUndefined))
       = [PromiseRejected (ValidationError (MissingField ''reference''))]
   \<and> events_emitted (call_effects (Payworks_request approving_gateway new_client ''VOID''
        [(''reference'', joi_required joi_string)] (JObj []) (JFun 3) JUndefined))
       = [(''error'', Error (ValidationError (MissingField ''reference'')))]
   \<and> callback_calls (call_effects (Payworks_request declining_gateway new_client ''VOID''
        [(''reference'', joi_required joi_string)] (JObj [(''reference'', JStr ''abc123'')])
        (JObj []) JNull)) = []
   \<and> events_emitted (call_effects (Payworks_request declining_gateway new_client ''VOID''
        [(''reference'', joi_required joi_string)] (JObj [(''reference'', JStr ''abc123'')])
        (JObj []) JNull)) = [(''decline'', Error (DeclineError \<lparr> status = Declined, body = [] \<rparr>))]"
proof -
  let ?S = "[(''reference'', joi_required joi_string)]"
  let ?ok = "JObj [(''reference'', JStr ''abc123'')]"
  have a: "\<And>req. transport approving_gateway req \<noteq> NoReply"
    by (simp add: approving_gateway_def)
  have d: "\<And>req. transport declining_gateway req \<noteq> NoReply"
    by (simp add: declining_gateway_def)
  have o1: "call_outcome (Payworks_request approving_gateway new_client ''VOID'' ?S ?ok
              JUndefined (JFun 7)) = Some (Success \<lparr> status = Approved, body = [] \<rparr>)"
    by (simp add: Payworks_request_def properties_of_def request_def approving_gateway_def
        supplied_def check_value_def joi_required_def joi_string_def finish_def
        interpret_response_def Let_def)
  have o2: "call_outcome (Payworks_request approving_gateway new_client ''VOID'' ?S (JObj [])
              (JFun 3) JUndefined) = Some (Failure (ValidationError (MissingField ''reference'')))"
    by (simp add: Payworks_request_def properties_of_def request_def approving_gateway_def
        supplied_def joi_required_def joi_string_def finish_def Let_def)
  have o3: "call_outcome (Payworks_request declining_gateway new_client ''VOID'' ?S ?ok
              (JObj []) JNull) = Some (Decline \<lparr> status = Declined, body = [] \<rparr>)"
    by (simp add: Payworks_request_def properties_of_def request_def declining_gateway_def
        supplied_def check_value_def joi_required_def joi_string_def finish_def
        interpret_response_def Let_def)
  from outcome_delivered_exactly_once
    [OF a, of new_client "''VOID''" ?S ?ok JUndefined "JFun 7"] o1
  have 1: "callback_calls (call_effects (Payworks_request approving_gateway new_client ''VOID''
        ?S ?ok JUndefined (JFun 7))) = [(7, Result \<lparr> status = Approved, body = [] \<rparr>)]
   \<and> promise_settlements (call_effects (Payworks_request approving_gateway new_client ''VOID''
        ?S ?ok JUndefined (JFun 7))) = [PromiseResolved \<lparr> status = Approved, body = [] \<rparr>]
   \<and> events_emitted (call_effects (Payworks_request approving_gateway new_client ''VOID''
        ?S ?ok JUndefined (JFun 7))) = [(''success'', Result \<lparr> status = Approved, body = [] \<rparr>)]"
    by auto
  from outcome_delivered_exactly_once
    [OF a, of new_client "''VOID''" ?S "JObj []" "JFun 3" JUndefined] o2
  have 2: "callback_calls (call_effects (Payworks_request approving_gateway new_client ''VOID''
        ?S (JObj []) (JFun 3) JUndefined))
       = [(3, Error (ValidationError (MissingField ''reference'')))]
   \<and> promise_settlements (call_effects (Payworks_request approving_gateway new_client ''VOID''
        ?S (JObj []) (JFun 3) JUndefined))
       = [PromiseRejected (ValidationError (MissingField ''reference''))]
   \<and> events_emitted (call_effects (Payworks_request approving_gateway new_client ''VOID''
        ?S (JObj []) (JFun 3) JUndefined))
       = [(''error'', Error (ValidationError (MissingField ''reference'')))]"
    by auto
  from outcome_delivered_exactly_once
    [OF d, of new_client "''VOID''" ?S ?ok "JObj []" JNull] o3
  have 3: "callback_calls (call_effects (Payworks_request declining_gateway new_client ''VOID''
        ?S ?ok (JObj []) JNull)) = []
   \<and> events_emitted (call_effects (Payworks_request declining_gateway new_client ''VOID''
        ?S ?ok (JObj []) JNull))
       = [(''decline'', Error (DeclineError \<lparr> status = Declined, body = [] \<rparr>))]"
    by auto
  from 1 2 3 show ?thesis by blast
qed

text \<open>
  C3. Every transaction method (auth, forceAuth, preAuth, postAuth, reAuth, refund, cancel,
  reverse, close, closeGroup, verify, suspend, reactivate), for every value of params,
  options and callback, on a transport that completes, returns the result of the dispatch
  helper: there is one Outcome, the promise is settled exactly once, resolved with the
  payload on Success and rejected with the error on Decline and on Failure, and exactly
  one terminal event is emitted, "success", "decline" or "error" in the same cases, with
  the same payload. Nothing in this depends on a callback being passed.
\<close>

theorem method_returns_dual_result:
  assumes "\<And>req. transport E req \<noteq> NoReply"
  shows "\<exists>out. call_outcome (call_method m (Payworks_request E) this params options callback)
               = Some out
     \<and> (case out of
          Success p \<Rightarrow>
            promise_settlements
              (call_effects (call_method m (Payworks_request E) this params options callback))
              = [PromiseResolved p]
            \<and> events_emitted
              (call_effects (call_method m (Payworks_request E) this params options callback))
              = [(''success'', Result p)]
        | Decline p \<Rightarrow>
            promise_settlements
              (call_effects (call_method m (Payworks_request E) this params options callback))
              = [PromiseRejected (DeclineError p)]
            \<and> events_emitted
              (call_effects (call_method m (Payworks_request E) this params options callback))
              = [(''decline'', Error (DeclineError p))]
        | Failure e \<Rightarrow>
            promise_settlements
              (call_effects (call_method m (Payworks_request E) this params options callback))
              = [PromiseRejected e]
            \<and> events_emitted
              (call_effects (call_method m (Payworks_request E) this params options callback))
              = [(''error'', Error e)])"
proof -
  let ?S = "call_method m schema_passed this params options callback"
  have u: "call_method m (Payworks_request E) this params options callback =
             request E this (spec_operation_code m) ?S (properties_of params) options callback"
    using call_method_unfold [of m "Payworks_request E" this params options callback]
    by (simp add: Payworks_request_def)
  obtain out before where r:
      "request E this (spec_operation_code m) ?S (properties_of params) options callback =
         finish (invocation_adapter options callback) before out"
    and b: "promise_settlements before = []" "events_emitted before = []"
    by (rule request_completes
          [OF assms, of this "spec_operation_code m" ?S "properties_of params" options callback])
      blast
  show ?thesis
    unfolding u r
    by (cases out)
      (simp_all add: finish_def promise_settlements_append events_emitted_append b
        deliver_promise_settlements deliver_events_emitted)
qed

theorem method_returns_dual_result_witness:
  "promise_settlements (call_effects (refund (Payworks_request approving_gateway) new_client
        (JObj [(''amount'', JNum 5), (''reference'', JStr ''abc123'')]) JUndefined JUndefined))
     = [PromiseResolved \<lparr> status = Approved, body = [] \<rparr>]
   \<and> events_emitted (call_effects (refund (Payworks_request approving_gateway) new_client
        (JObj [(''amount'', JNum 5), (''reference'', JStr ''abc123'')]) JUndefined JUndefined))
     = [(''success'', Result \<lparr> status = Approved, body = [] \<rparr>)]
   \<and> promise_settlements (call_effects (refund (Payworks_request declining_gateway) new_client
        (JObj [(''amount'', JNum 5), (''reference'', JStr ''abc123'')]) JUndefined (JFun 1)))
     = [PromiseRejected (DeclineError \<lparr> status = Declined, body = [] \<rparr>)]
   \<and> events_emitted (call_effects (refund (Payworks_request declining_gateway) new_client
        (JObj [(''amount'', JNum 5), (''reference'', JStr ''abc123'')]) JUndefined (JFun 1)))
     = [(''decline'', Error (DeclineError \<lparr> status = Declined, body = [] \<rparr>))]
   \<and> promise_settlements (call_effects (cancel (Payworks_request approving_gateway) new_client
        JUndefined JUndefined JUndefined))
     = [PromiseRejected (ValidationError (MissingField ''reference''))]
   \<and> events_emitted (call_effects (cancel (Payworks_request approving_gateway) new_client
        JUndefined JUndefined JUndefined))
     = [(''error'', Error (ValidationError (MissingField ''reference'')))]"
proof -
  let ?five = "JObj [(''amount'', JNum 5), (''reference'', JStr ''abc123'')]"
  have a: "\<And>req. transport approving_gateway req \<noteq> NoReply"
    by (simp add: approving_gateway_def)
  have d: "\<And>req. transport declining_gateway req \<noteq> NoReply"
    by (simp add: declining_gateway_def)
  have o1: "call_outcome (refund (Payworks_request approving_gateway) new_client ?five
              JUndefined JUndefined) = Some (Success \<lparr> status = Approved, body = [] \<rparr>)"
    by (simp add: refund_def Payworks_request_def properties_of_def request_def
        approving_gateway_def supplied_def check_value_def joi_required_def joi_string_def
        joi_number_def finish_def interpret_response_def Let_def)
  have o2: "call_outcome (refund (Payworks_request declining_gateway) new_client ?five
              JUndefined (JFun 1)) = Some (Decline \<lparr> status = Declined, body = [] \<rparr>)"
    by (simp add: refund_def Payworks_request_def properties_of_def request_def
        declining_gateway_def supplied_def check_value_def joi_required_def joi_string_def
        joi_number_def finish_def interpret_response_def Let_def)
  have o3: "call_outcome (cancel (Payworks_request approving_gateway) new_client JUndefined
              JUndefined JUndefined) = Some (Failure (ValidationError (MissingField ''reference'')))"
    by (simp add: cancel_def Payworks_request_def properties_of_def request_def
        approving_gateway_def supplied_def joi_required_def joi_string_def finish_def Let_def)
  from method_returns_dual_result [OF a, of Refund new_client ?five JUndefined JUndefined] o1
  have 1: "promise_settlements (call_effects (refund (Payworks_request approving_gateway)
        new_client ?five JUndefined JUndefined))
     = [PromiseResolved \<lparr> status = Approved, body = [] \<rparr>]
   \<and> events_emitted (call_effects (refund (Payworks_request approving_gateway) new_client
        ?five JUndefined JUndefined))
     = [(''success'', Result \<lparr> status = Approved, body = [] \<rparr>)]"
    by auto
  from method_returns_dual_result [OF d, of Refund new_client ?five JUndefined "JFun 1"] o2
  have 2: "promise_settlements (call_effects (refund (Payworks_request declining_gateway)
        new_client ?five JUndefined (JFun 1)))
     = [PromiseRejected (DeclineError \<lparr> status = Declined, body = [] \<rparr>)]
   \<and> events_emitted (call_effects (refund (Payworks_request declining_gateway) new_client
        ?five JUndefined (JFun 1)))
     = [(''decline'', Error (DeclineError \<lparr> status = Declined, body = [] \<rparr>))]"
    by auto
  from method_returns_dual_result [OF a, of Cancel new_client JUndefined JUndefined JUndefined] o3
  have 3: "promise_settlements (call_effects (cancel (Payworks_request approving_gateway)
        new_client JUndefined JUndefined JUndefined))
     = [PromiseRejected (ValidationError (MissingField ''reference''))]
   \<and> events_emitted (call_effects (cancel (Payworks_request approving_gateway) new_client
        JUndefined JUndefined JUndefined))
     = [(''error'', Error (ValidationError (MissingField ''reference'')))]"
    by auto
  from 1 2 3 show ?thesis by blast
qed



text \<open>
  C6. Fields of the parameters that the schema does not declare never decide validation:
  with or without them it fails in the same cases and with the same error. And every
  request that is sent carries each undeclared field with the value the caller gave it.
\<close>

theorem undeclared_fields_pass_through:
  "validation_failure (parse_number E) S params =
     validation_failure (parse_number E) S (declared_part S params)
   \<and> (\<forall>req \<in> set (requests_sent (call_effects (request E this code S params options callback))).
        \<forall>k. k \<notin> fst ` set S \<longrightarrow> map_of (req_fields req) k = map_of params k)"
proof
  show "validation_failure (parse_number E) S params =
     validation_failure (parse_number E) S (declared_part S params)"
    by (rule validate_agree) (simp add: map_of_declared_part)
next
  show "\<forall>req \<in> set (requests_sent (call_effects (request E this code S params options callback))).
        \<forall>k. k \<notin> fst ` set S \<longrightarrow> map_of (req_fields req) k = map_of params k"
  proof (cases rule: request_cases [of E S params this code options callback])
    case (invalid e)
    then show ?thesis by (simp add: finish_reads)
  next
    case (hung validated)
    then show ?thesis by (simp add: build_request_def validate_keeps_undeclared)
  next
    case (finished validated out)
    then show ?thesis by (simp add: finish_reads build_request_def validate_keeps_undeclared)
  qed
qed

theorem undeclared_fields_pass_through_witness:
  "validation_failure (parse_number approving_gateway) [(''reference'', joi_required joi_string)]
      [(''reference'', JStr ''abc123''), (''note'', JNum 5)] = None
   \<and> map (\<lambda>req. map_of (req_fields req) ''note'')
         (requests_sent (call_effects (request approving_gateway new_client ''VOID''
            [(''reference'', joi_required joi_string)]
            [(''reference'', JStr ''abc123''), (''note'', JNum 5)] JUndefined JUndefined)))
       = [Some (JNum 5)]"
proof -
  let ?sent = "requests_sent (call_effects (request approving_gateway new_client ''VOID''
          [(''reference'', joi_required joi_string)]
          [(''reference'', JStr ''abc123''), (''note'', JNum 5)] JUndefined JUndefined))"
  have v: "validate (parse_number approving_gateway) [(''reference'', joi_required joi_string)]
      [(''reference'', JStr ''abc123''), (''note'', JNum 5)]
        = Inr [(''reference'', JStr ''abc123''), (''note'', JNum 5)]"
    by (simp add: supplied_def check_value_def joi_required_def joi_string_def)
  have "length ?sent = 1"
    using request_valid [OF v, of new_client "''VOID''" JUndefined JUndefined]
    by (simp add: approving_gateway_def finish_reads)
  then obtain req where l: "?sent = [req]"
    by (cases ?sent) simp_all
  have f: "validation_failure (parse_number approving_gateway)
      [(''reference'', joi_required joi_string)]
      [(''reference'', JStr ''abc123''), (''note'', JNum 5)] = None"
    by (simp only: validation_failure_def v sum.case)
  have "\<forall>req \<in> set ?sent. map_of (req_fields req) ''note'' = Some (JNum 5)"
    using undeclared_fields_pass_through
      [of approving_gateway "[(''reference'', joi_required joi_string)]"
          "[(''reference'', JStr ''abc123''), (''note'', JNum 5)]" new_client "''VOID''"
          JUndefined JUndefined, THEN conjunct2]
    by simp
  then have "map (\<lambda>req. map_of (req_fields req) ''note'') ?sent = [Some (JNum 5)]"
    by (simp add: l)
  with f show ?thesis by blast
qed




text \<open>
  The methods of the skeleton class of lib/index.js do nothing and return undefined,
  whatever they are called with.
\<close>

lemma lib_methods_return_undefined:
  "lib_sell this params options callback = JUndefined"
  "lib_preAuth this params options callback = JUndefined"
  "lib_postAuth this params options callback = JUndefined"
  "lib_reAuth this params options callback = JUndefined"
  "lib_return this params options callback = JUndefined"
  "lib_cancel this params options callback = JUndefined"
  "lib_reverse this params options callback = JUndefined"
  "lib_close this params options callback = JUndefined"
  "lib_closeGroup this params options callback = JUndefined"
  "lib_verify this params options callback = JUndefined"
  "lib_suspend this params options callback = JUndefined"
  "lib_reactivate this params options callback = JUndefined"
  by (simp_all add: lib_sell_def lib_preAuth_def lib_postAuth_def lib_reAuth_def
      lib_return_def lib_cancel_def lib_reverse_def lib_close_def lib_closeGroup_def
      lib_verify_def lib_suspend_def lib_reactivate_def)


end
